theory Spec2Isabelle
  imports Main "HOL-Library.Word" "HOL-Library.Sublist"
begin

unbundle bit_operations_syntax

section \<open>Shared data model\<close>

text \<open>
  Go's \<open>byte\<close> and \<open>uint64\<close> are words whose arithmetic wraps; a byte slice and a
  fixed-size byte array are both byte lists (the array's length is kept by the code
  that builds it). Go's \<open>int\<close> is only compared here, never overflowed, and is \<open>int\<close>.
\<close>

type_synonym byte = "8 word"
type_synonym bytes = "byte list"
type_synonym uint64 = "64 word"
type_synonym uint256 = "256 word"

text \<open>
  A Go function either returns or panics at run time (integer division by zero, a
  method call through a nil pointer). The panic is a value of the model.
\<close>

datatype 'a outcome = Returned 'a | Panicked

text \<open>
  The error values the two files build or compare against. \<open>InvalidBlock\<close> is the
  struct literal \<^verbatim>\<open>invalidBlock{error, root, lastValidHash, invalidAncestorRoots}\<close>;
  a field the literal leaves out has Go's zero value (32 zero bytes, the nil slice).
  \<open>Wrap\<close> and \<open>WithMessage\<close> are \<^verbatim>\<open>errors.Wrap\<close> and \<^verbatim>\<open>errors.WithMessage\<close>;
  \<open>ErrorNew\<close> is \<^verbatim>\<open>errors.New\<close>; \<open>ErrPeersNotFound\<close> is the one
  \<^verbatim>\<open>errors.Errorf\<close> of the peer search, with its three arguments; the second argument
  of \<open>WithMessage\<close> is the error whose text is the message; \<open>External\<close> stands for any
  error a collaborator returns.
\<close>

datatype error =
    ErrAcceptedSyncingPayloadStatus
  | ErrInvalidPayloadStatus
  | ErrInvalidPayload
  | ErrUndefinedExecutionEngineError
  | ErrorNew string
  | ErrPeersNotFound string int int
  | External nat
  | InvalidBlock error bytes bytes "bytes list"
  | Wrap error string
  | WithMessage error error

text \<open>\<^verbatim>\<open>errors.Is\<close>: the error itself or one it wraps is the target.\<close>

fun errors_Is :: "error \<Rightarrow> error \<Rightarrow> bool" where
  "errors_Is (Wrap e m) target = (Wrap e m = target \<or> errors_Is e target)"
| "errors_Is (WithMessage e m) target = (WithMessage e m = target \<or> errors_Is e target)"
| "errors_Is e target = (e = target)"

text \<open>
  The helpers of \<^verbatim>\<open>encoding/bytesutil\<close> the two files call. Their bodies are not part
  of the files verified here, so the model takes them as parameters.
\<close>

record bytesutil =
  PadTo :: "bytes \<Rightarrow> nat \<Rightarrow> bytes"
  ToBytes32 :: "bytes \<Rightarrow> bytes"
  Bytes8 :: "uint64 \<Rightarrow> bytes"

section \<open>Subnet participation (\<^verbatim>\<open>beacon-chain/p2p/subnets.go\<close>)\<close>

subsection \<open>Deterministic subnet assignment\<close>

text \<open>The fields of \<^verbatim>\<open>params.BeaconConfig()\<close> that the assignment reads.\<close>

record beaconConfig =
  SubnetsPerNode :: uint64
  EpochsPerSubnetSubscription :: uint64
  AttestationSubnetPrefixBits :: uint64
  AttestationSubnetCount :: uint64
  NodeIdBits :: uint64

text \<open>
  \<^verbatim>\<open>hash.Hash\<close> and \<^verbatim>\<open>helpers.ComputeShuffledIndex\<close> (index, index count, seed,
  shuffle flag) are external to the file and are parameters too.
\<close>

record subnetHelpers =
  Hash :: "bytes \<Rightarrow> bytes"
  ComputeShuffledIndex :: "uint64 \<Rightarrow> uint64 \<Rightarrow> bytes \<Rightarrow> bool \<Rightarrow> error + uint64"

text \<open>
  \<^verbatim>\<open>uint256.NewInt(0).SetBytes(b)\<close> reads \<open>b\<close> big-endian; of a longer slice only the
  last 32 bytes count, which is what wrapping in 256 bits gives.
\<close>

definition uint256_SetBytes :: "bytes \<Rightarrow> uint256" where
  "uint256_SetBytes b = foldl (\<lambda>acc x. push_bit 8 acc + ucast x) 0 b"

text \<open>\<^verbatim>\<open>z.Mod(x, y)\<close> of uint256 is 0 when \<open>y\<close> is 0.\<close>

definition uint256_Mod :: "uint256 \<Rightarrow> uint256 \<Rightarrow> uint256" where
  "uint256_Mod x y = (if y = 0 then 0 else x mod y)"

text \<open>
  A node id is \<^verbatim>\<open>enode.ID\<close>, 32 bytes. \<open>remBits\<close> is a uint64 difference (it wraps)
  cast to \<^verbatim>\<open>uint\<close>; \<^verbatim>\<open>Rsh\<close> by 256 or more gives 0, as \<open>drop_bit\<close> does;
  \<^verbatim>\<open>Uint64()\<close> keeps the low 64 bits.
\<close>

definition computeOffsetAndPrefix :: "beaconConfig \<Rightarrow> bytes \<Rightarrow> uint64 \<times> uint64" where
  "computeOffsetAndPrefix cfg nodeID =
     (let num = uint256_SetBytes nodeID;
          remBits = NodeIdBits cfg - AttestationSubnetPrefixBits cfg;
          nodeIdPrefix = (ucast (drop_bit (unat remBits) num) :: uint64);
          num2 = uint256_SetBytes nodeID;
          nodeOffset = (ucast (uint256_Mod num2 (ucast (EpochsPerSubnetSubscription cfg))) :: uint64)
      in (nodeOffset, nodeIdPrefix))"

text \<open>
  The two uint64 divisions panic on a zero divisor. \<^verbatim>\<open>1 << bits\<close> is a uint64 shift:
  0 from 64 bits on.
\<close>

definition computeSubscribedSubnet ::
  "beaconConfig \<Rightarrow> bytesutil \<Rightarrow> subnetHelpers \<Rightarrow> bytes \<Rightarrow> uint64 \<Rightarrow> uint64 \<Rightarrow> (error + uint64) outcome" where
  "computeSubscribedSubnet cfg bu h nodeID epoch index =
     (case computeOffsetAndPrefix cfg nodeID of (nodeOffset, nodeIdPrefix) \<Rightarrow>
        if EpochsPerSubnetSubscription cfg = 0 then Panicked
        else
          let seedInput = (nodeOffset + epoch) div EpochsPerSubnetSubscription cfg;
              permSeed = Hash h (Bytes8 bu seedInput)
          in (case ComputeShuffledIndex h nodeIdPrefix
                     (push_bit (unat (AttestationSubnetPrefixBits cfg)) 1) permSeed True of
                Inl err \<Rightarrow> Returned (Inl err)
              | Inr permutatedPrefix \<Rightarrow>
                  (if AttestationSubnetCount cfg = 0 then Panicked
                   else Returned (Inr ((permutatedPrefix + index) mod AttestationSubnetCount cfg)))))"

text \<open>
  The loop of \<^verbatim>\<open>computeSubscribedSubnets\<close>: \<open>i\<close> counts up to \<open>subnetsPerNode\<close>, the
  first error or panic ends it, each subnet is appended to \<open>subs\<close>.
\<close>

function subscribedSubnetsLoop ::
  "beaconConfig \<Rightarrow> bytesutil \<Rightarrow> subnetHelpers \<Rightarrow> bytes \<Rightarrow> uint64 \<Rightarrow> uint64 \<Rightarrow> uint64 \<Rightarrow> uint64 list
     \<Rightarrow> (error + uint64 list) outcome" where
  "subscribedSubnetsLoop cfg bu h nodeID epoch subnetsPerNode i subs =
     (if i < subnetsPerNode then
        (case computeSubscribedSubnet cfg bu h nodeID epoch i of
           Panicked \<Rightarrow> Panicked
         | Returned (Inl err) \<Rightarrow> Returned (Inl err)
         | Returned (Inr sub) \<Rightarrow>
             subscribedSubnetsLoop cfg bu h nodeID epoch subnetsPerNode (i + 1) (subs @ [sub]))
      else Returned (Inr subs))"
  by pat_completeness auto

termination
proof (relation "measure (\<lambda>(cfg, bu, h, nodeID, epoch, n, i, subs). unat n - unat i)")
  show "wf (measure (\<lambda>(cfg, bu, h, nodeID, epoch, n, i, subs). unat n - unat i))"
    by simp
next
  fix cfg :: beaconConfig and bu :: bytesutil and h :: subnetHelpers and nodeID :: bytes
    and epoch subnetsPerNode i :: uint64 and subs :: "uint64 list"
  assume lt: "i < subnetsPerNode"
  then have "i + 1 \<noteq> 0"
    by (metis add.commute add.right_inverse add_left_cancel word_order.extremum_strict)
  then have "unat (i + 1) = Suc (unat i)"
    by (simp add: unatSuc add.commute)
  moreover from lt have "unat i < unat subnetsPerNode"
    by (simp add: word_less_nat_alt)
  ultimately show "((cfg, bu, h, nodeID, epoch, subnetsPerNode, i + 1, subs @ [a]),
         (cfg, bu, h, nodeID, epoch, subnetsPerNode, i, subs))
        \<in> measure (\<lambda>(cfg, bu, h, nodeID, epoch, n, i, subs). unat n - unat i)" for a
    by simp
qed

definition computeSubscribedSubnets ::
  "beaconConfig \<Rightarrow> bytesutil \<Rightarrow> subnetHelpers \<Rightarrow> bytes \<Rightarrow> uint64 \<Rightarrow> (error + uint64 list) outcome" where
  "computeSubscribedSubnets cfg bu h nodeID epoch =
     subscribedSubnetsLoop cfg bu h nodeID epoch (SubnetsPerNode cfg) 0 []"


subsection \<open>The node's record and metadata\<close>

text \<open>
  \<^verbatim>\<open>wrapper.WrappedMetadataV0\<close> and \<^verbatim>\<open>WrappedMetadataV1\<close> wrap the two struct literals
  the file builds; \<^verbatim>\<open>SequenceNumber()\<close> reads the \<^verbatim>\<open>SeqNumber\<close> field. A V0 metadata
  has no sync bitfield. Bitvectors are byte slices.
\<close>

datatype metaData =
    MetaDataV0 uint64 bytes
  | MetaDataV1 uint64 bytes bytes

fun SequenceNumber :: "metaData \<Rightarrow> uint64" where
  "SequenceNumber (MetaDataV0 seqNumber attnets) = seqNumber"
| "SequenceNumber (MetaDataV1 seqNumber attnets syncnets) = seqNumber"

fun AttnetsBitfield :: "metaData \<Rightarrow> bytes" where
  "AttnetsBitfield (MetaDataV0 seqNumber attnets) = attnets"
| "AttnetsBitfield (MetaDataV1 seqNumber attnets syncnets) = attnets"

fun SyncnetsBitfield :: "metaData \<Rightarrow> bytes option" where
  "SyncnetsBitfield (MetaDataV0 seqNumber attnets) = None"
| "SyncnetsBitfield (MetaDataV1 seqNumber attnets syncnets) = Some syncnets"

text \<open>
  The p2p service. \<open>dv5Listener\<close> is \<open>None\<close> when discovery is not set, else the
  entries of the local node's record by key. \<open>net\<close> is the state of discovery, pubsub
  and the context; \<open>dialed\<close> lists the peers \<^verbatim>\<open>connectWithPeer\<close> was called for, an
  observation the code does not keep.
\<close>

type_synonym localNode = "string \<rightharpoonup> bytes"

record 'p p2pService =
  dv5Listener :: "localNode option"
  metaData :: metaData
  net :: 'p
  dialed :: "nat list"

text \<open>The two keys of \<^verbatim>\<open>params.BeaconNetworkConfig()\<close>.\<close>

record networkConfig =
  AttSubnetKey :: string
  SyncCommsSubnetKey :: string

text \<open>Both updates call \<^verbatim>\<open>s.dv5Listener.LocalNode()\<close> unguarded: a nil listener panics.\<close>

definition updateSubnetRecordWithMetadata ::
  "networkConfig \<Rightarrow> 'p p2pService \<Rightarrow> bytes \<Rightarrow> 'p p2pService outcome" where
  "updateSubnetRecordWithMetadata nc s bitV =
     (case dv5Listener s of
        None \<Rightarrow> Panicked
      | Some node \<Rightarrow>
          Returned (s\<lparr>dv5Listener := Some (node(AttSubnetKey nc \<mapsto> bitV)),
                      metaData := MetaDataV0 (SequenceNumber (metaData s) + 1) bitV\<rparr>))"

definition updateSubnetRecordWithMetadataV2 ::
  "networkConfig \<Rightarrow> 'p p2pService \<Rightarrow> bytes \<Rightarrow> bytes \<Rightarrow> 'p p2pService outcome" where
  "updateSubnetRecordWithMetadataV2 nc s bitVAtt bitVSync =
     (case dv5Listener s of
        None \<Rightarrow> Panicked
      | Some node \<Rightarrow>
          Returned (s\<lparr>dv5Listener :=
                        Some ((node(AttSubnetKey nc \<mapsto> bitVAtt))(SyncCommsSubnetKey nc \<mapsto> bitVSync)),
                      metaData := MetaDataV1 (SequenceNumber (metaData s) + 1) bitVAtt bitVSync\<rparr>))"

subsection \<open>\<^verbatim>\<open>FindPeersWithSubnet\<close>\<close>

text \<open>
  The filter predicate wrapped around the iterator is kept as a value naming the
  function that builds it and its index. Nodes are numbers, and so are peer addresses.
\<close>

datatype nodeFilter = filterPeerForAttSubnet uint64 | filterPeerForSyncSubnet uint64

record 'p discovery =
  ProtocolSuffix :: string
  GossipAttestationMessage :: string
  GossipSyncCommitteeMessage :: string
  ListPeers :: "'p \<Rightarrow> string \<Rightarrow> nat list"
  ctxErr :: "'p \<Rightarrow> error option"
  MinimumPeersInSubnetSearch :: uint64
  MaxDialIsActive :: bool
  MaxConcurrentDials :: int
  ReadNodes :: "'p \<Rightarrow> nodeFilter \<Rightarrow> int \<Rightarrow> nat list \<times> 'p"
  convertToAddrInfo :: "nat \<Rightarrow> error + nat option"
  connectWithPeer :: "'p \<Rightarrow> nat \<Rightarrow> 'p"

text \<open>
  One batch: a node that does not convert, or converts to nil, is skipped; each other
  one is dialled. The code dials the batch in goroutines and waits for all of them;
  the model dials in list order.
\<close>

fun dialNodes :: "'p discovery \<Rightarrow> 'p p2pService \<Rightarrow> nat list \<Rightarrow> 'p p2pService" where
  "dialNodes d s [] = s"
| "dialNodes d s (node # nodes) =
     (case convertToAddrInfo d node of
        Inl err \<Rightarrow> dialNodes d s nodes
      | Inr None \<Rightarrow> dialNodes d s nodes
      | Inr (Some info) \<Rightarrow>
          dialNodes d (s\<lparr>net := connectWithPeer d (net s) info, dialed := dialed s @ [info]\<rparr>) nodes)"

text \<open>
  The search loop has no bound of its own (the source's comment says it may hang):
  \<open>None\<close> is the loop that does not end.
\<close>

partial_function (option) findPeersLoop ::
  "'p discovery \<Rightarrow> nodeFilter \<Rightarrow> string \<Rightarrow> int \<Rightarrow> 'p p2pService
     \<Rightarrow> ((bool \<times> error option) \<times> 'p p2pService) option" where
  "findPeersLoop d iterator topic threshold s =
     (let currNum = int (length (ListPeers d (net s) topic))
      in if threshold \<le> currNum then Some ((True, None), s)
         else (case ctxErr d (net s) of
                 Some err \<Rightarrow> Some ((False, Some (ErrPeersNotFound topic currNum threshold)), s)
               | None \<Rightarrow>
                   (let nodeCount0 = sint (MinimumPeersInSubnetSearch d);
                        nodeCount = (if MaxDialIsActive d then min nodeCount0 (MaxConcurrentDials d)
                                     else nodeCount0)
                    in (case ReadNodes d (net s) iterator nodeCount of
                          (nodes, p1) \<Rightarrow>
                            findPeersLoop d iterator topic threshold
                              (dialNodes d (s\<lparr>net := p1\<rparr>) nodes)))))"

text \<open>\<^verbatim>\<open>strings.Contains(topic, m)\<close> is \<open>sublist m topic\<close>.\<close>

definition FindPeersWithSubnet ::
  "'p discovery \<Rightarrow> 'p p2pService \<Rightarrow> string \<Rightarrow> uint64 \<Rightarrow> int
     \<Rightarrow> ((bool \<times> error option) \<times> 'p p2pService) option" where
  "FindPeersWithSubnet d s topic0 index threshold =
     (case dv5Listener s of
        None \<Rightarrow> Some ((False, None), s)
      | Some listener \<Rightarrow>
          (let topic = topic0 @ ProtocolSuffix d
           in if sublist (GossipAttestationMessage d) topic
              then findPeersLoop d (filterPeerForAttSubnet index) topic threshold s
              else if sublist (GossipSyncCommitteeMessage d) topic
              then findPeersLoop d (filterPeerForSyncSubnet index) topic threshold s
              else Some ((False, Some (ErrorNew ''no subnet exists for provided topic'')), s)))"

section \<open>Execution engine coordination (\<^verbatim>\<open>beacon-chain/blockchain/execution_engine.go\<close>)\<close>

subsection \<open>Blocks, attributes and the service\<close>

text \<open>
  Blocks reach the file through interfaces; a block is the record of what its methods
  return. \<open>Block\<close> is \<open>None\<close> where \<^verbatim>\<open>Block()\<close> returns nil.
\<close>

record executionData =
  BlockHash :: bytes

record beaconBlockBody =
  body_IsNil :: bool
  Execution :: "error + executionData"
  BlobKzgCommitments :: "error + bytes list"
  ExecutionRequests :: "error + nat"

record beaconBlock =
  block_IsNil :: bool
  Body :: beaconBlockBody
  ParentRoot :: bytes
  block_Version :: int
  Slot :: uint64

record signedBeaconBlock =
  signed_IsNil :: bool
  Block :: "beaconBlock option"
  signed_Version :: int

record attributer =
  attr_IsEmpty :: bool
  attr_Version :: int

record forkchoiceState =
  HeadBlockHash :: bytes
  SafeBlockHash :: bytes
  FinalizedBlockHash :: bytes

record 's fcuConfig =
  headState :: 's
  headBlock :: "signedBeaconBlock option"
  headRoot :: bytes
  attributes :: "attributer option"

text \<open>
  The calls the service makes to the execution engine and to fork choice's
  invalidation, in order. The code keeps no such list; it is what a recording
  collaborator would have seen.
\<close>

datatype event =
    CallForkchoiceUpdated forkchoiceState attributer
  | CallNewPayload executionData "bytes list" "bytes option" "nat option"
  | CallSetOptimisticToInvalid bytes bytes bytes

text \<open>
  The service: \<open>world\<close> is the state of everything behind the collaborators' interfaces
  (fork choice, engine, stores, clock); \<open>PayloadIDCache\<close> is the payload-id cache, whose
  type is the mapping described with \<open>PayloadIDCache_Set\<close> below.
\<close>

record 'w service =
  world :: 'w
  PayloadIDCache :: "(uint64 \<times> bytes) \<rightharpoonup> bytes"
  calls :: "event list"

text \<open>
  Modelled from the spec: the type \<^verbatim>\<open>cache.PayloadIDCache\<close> and its method \<^verbatim>\<open>Set\<close> are
  declared outside the files verified here. The spec gives the cache as a mapping
  \<open>(slot, head_root) \<rightarrow> payload_id\<close>, written when a forkchoice update with attributes
  returns a non-null id; \<^verbatim>\<open>Set\<close> stores the id under that key. The eviction of other
  keys ("bounded by slot window") is not modelled.
\<close>

definition PayloadIDCache_Set ::
  "((uint64 \<times> bytes) \<rightharpoonup> bytes) \<Rightarrow> uint64 \<Rightarrow> bytes \<Rightarrow> bytes \<Rightarrow> ((uint64 \<times> bytes) \<rightharpoonup> bytes)" where
  "PayloadIDCache_Set cache slot root pid = cache((slot, root) \<mapsto> pid)"

text \<open>
  The collaborators, as functions of the world. One that may change the world returns
  the new one. The three version numbers are the constants of \<^verbatim>\<open>runtime/version\<close>.
\<close>

record ('w, 's) collaborators =
  IsExecutionBlock :: "beaconBlockBody \<Rightarrow> error + bool"
  FinalizedPayloadBlockHash :: "'w \<Rightarrow> bytes"
  UnrealizedJustifiedPayloadBlockHash :: "'w \<Rightarrow> bytes"
  EmptyWithVersion :: "int \<Rightarrow> attributer"
  ForkchoiceUpdated :: "'w \<Rightarrow> forkchoiceState \<Rightarrow> attributer \<Rightarrow> (bytes option \<times> bytes \<times> error option) \<times> 'w"
  SetOptimisticToInvalid :: "'w \<Rightarrow> bytes \<Rightarrow> bytes \<Rightarrow> bytes \<Rightarrow> (error + bytes list) \<times> 'w"
  SetOptimisticToValid :: "'w \<Rightarrow> bytes \<Rightarrow> error option \<times> 'w"
  Head :: "'w \<Rightarrow> (error + bytes) \<times> 'w"
  getBlock :: "'w \<Rightarrow> bytes \<Rightarrow> error + signedBeaconBlock"
  StateByRoot :: "'w \<Rightarrow> bytes \<Rightarrow> (error + 's) \<times> 'w"
  saveHead :: "'w \<Rightarrow> bytes \<Rightarrow> signedBeaconBlock \<Rightarrow> 's \<Rightarrow> error option \<times> 'w"
  CurrentSlot :: "'w \<Rightarrow> uint64"
  DeleteStateFromCaches :: "'w \<Rightarrow> bytes \<Rightarrow> error option \<times> 'w"
  DeleteBlock :: "'w \<Rightarrow> bytes \<Rightarrow> error option \<times> 'w"
  blobStorage_Remove :: "'w \<Rightarrow> bytes \<Rightarrow> error option \<times> 'w"
  Bellatrix :: int
  Deneb :: int
  Electra :: int
  BeaconBlockIsNil :: "signedBeaconBlock \<Rightarrow> error option"
  IsExecutionEnabledUsingHeader :: "executionData \<Rightarrow> beaconBlockBody \<Rightarrow> error + bool"
  ConvertKzgCommitmentToVersionedHash :: "bytes \<Rightarrow> bytes"
  NewPayload :: "'w \<Rightarrow> executionData \<Rightarrow> bytes list \<Rightarrow> bytes option \<Rightarrow> nat option \<Rightarrow> (bytes \<times> error option) \<times> 'w"

text \<open>\<^verbatim>\<open>var defaultLatestValidHash = bytesutil.PadTo([]byte{0xff}, 32)\<close>\<close>

definition defaultLatestValidHash :: "bytesutil \<Rightarrow> bytes" where
  "defaultLatestValidHash bu = PadTo bu [0xff] 32"

text \<open>The zero value of \<^verbatim>\<open>[32]byte\<close>, and \<^verbatim>\<open>copy\<close> into a fresh \<^verbatim>\<open>[8]byte\<close>.\<close>

definition zeroHash :: bytes where
  "zeroHash = replicate 32 0"

definition copy8 :: "bytes \<Rightarrow> bytes" where
  "copy8 src = take 8 src @ replicate (8 - length src) 0"

subsection \<open>Removing invalid blocks\<close>

text \<open>A failed blob removal is logged only; the other two failures end the loop.\<close>

fun removeInvalidBlockAndState :: "('w, 's) collaborators \<Rightarrow> 'w \<Rightarrow> bytes list \<Rightarrow> error option \<times> 'w" where
  "removeInvalidBlockAndState c w [] = (None, w)"
| "removeInvalidBlockAndState c w (root # blkRoots) =
     (case DeleteStateFromCaches c w root of
        (Some err, w1) \<Rightarrow> (Some err, w1)
      | (None, w1) \<Rightarrow>
          (case DeleteBlock c w1 root of
             (Some err, w2) \<Rightarrow> (Some err, w2)
           | (None, w2) \<Rightarrow>
               (case blobStorage_Remove c w2 root of
                  (_, w3) \<Rightarrow> removeInvalidBlockAndState c w3 blkRoots)))"

subsection \<open>\<^verbatim>\<open>notifyForkchoiceUpdate\<close>\<close>

text \<open>
  The function calls itself on the new head after an INVALID answer, and nothing in it
  bounds how often the engine answers INVALID: the model carries fuel, one unit per
  call, and \<open>None\<close> is the call that has not returned when the fuel is spent. The
  result is Go's pair (payload id, error) with the service after the call. Logging and
  metric counters are left out. \<^verbatim>\<open>arg.attributes\<close> is overwritten when nil, so the
  recursive call and \<open>hasAttr\<close> both see the substituted value.
\<close>

primrec notifyForkchoiceUpdate ::
  "bytesutil \<Rightarrow> ('w, 's) collaborators \<Rightarrow> nat \<Rightarrow> 'w service \<Rightarrow> 's fcuConfig
     \<Rightarrow> ((bytes option \<times> error option) \<times> 'w service) option" where
  "notifyForkchoiceUpdate bu c 0 s arg = None"
| "notifyForkchoiceUpdate bu c (Suc fuel) s arg =
     (case headBlock arg of
        None \<Rightarrow> Some ((None, None), s)
      | Some hb \<Rightarrow>
        (if signed_IsNil hb then Some ((None, None), s)
         else (case Block hb of
           None \<Rightarrow> Some ((None, None), s)
         | Some headBlk \<Rightarrow>
           (if block_IsNil headBlk \<or> body_IsNil (Body headBlk) then Some ((None, None), s)
            else (case IsExecutionBlock c (Body headBlk) of
              Inl err \<Rightarrow> Some ((None, None), s)
            | Inr isExecutionBlk \<Rightarrow>
              (if \<not> isExecutionBlk then Some ((None, None), s)
               else (case Execution (Body headBlk) of
                 Inl err \<Rightarrow> Some ((None, None), s)
               | Inr headPayload \<Rightarrow>
                 (let finalizedHash = FinalizedPayloadBlockHash c (world s);
                      justifiedHash = UnrealizedJustifiedPayloadBlockHash c (world s);
                      fcs = \<lparr>HeadBlockHash = BlockHash headPayload,
                             SafeBlockHash = justifiedHash,
                             FinalizedBlockHash = finalizedHash\<rparr>;
                      attrs = (case attributes arg of
                                 None \<Rightarrow> EmptyWithVersion c (block_Version headBlk)
                               | Some a \<Rightarrow> a)
                  in (case ForkchoiceUpdated c (world s) fcs attrs of
                    ((payloadID, lastValidHash, engineErr), w1) \<Rightarrow>
                    (let s1 = s\<lparr>world := w1, calls := calls s @ [CallForkchoiceUpdated fcs attrs]\<rparr>
                     in (case engineErr of
                       Some err \<Rightarrow>
                         (if errors_Is err ErrAcceptedSyncingPayloadStatus then Some ((payloadID, None), s1)
                          else if errors_Is err ErrInvalidPayloadStatus then
                            (let lvh = (if length lastValidHash = 0 then defaultLatestValidHash bu
                                        else lastValidHash);
                                 lvh32 = ToBytes32 bu lvh
                             in (case SetOptimisticToInvalid c w1 (headRoot arg) (ParentRoot headBlk) lvh32 of
                               (invalidated, w2) \<Rightarrow>
                               (let s2 = s1\<lparr>world := w2,
                                           calls := calls s1 @
                                             [CallSetOptimisticToInvalid (headRoot arg) (ParentRoot headBlk) lvh32]\<rparr>
                                in (case invalidated of
                                  Inl err \<Rightarrow> Some ((None, None), s2)
                                | Inr invalidRoots \<Rightarrow>
                                  (case removeInvalidBlockAndState c w2 invalidRoots of
                                     (Some err, w3) \<Rightarrow> Some ((None, None), s2\<lparr>world := w3\<rparr>)
                                   | (None, w3) \<Rightarrow>
                                     (case Head c w3 of
                                        (Inl err, w4) \<Rightarrow>
                                          Some ((None, Some (InvalidBlock ErrInvalidPayload (headRoot arg)
                                                               zeroHash invalidRoots)),
                                                s2\<lparr>world := w4\<rparr>)
                                      | (Inr r, w4) \<Rightarrow>
                                        (case getBlock c w4 r of
                                           Inl err \<Rightarrow> Some ((None, None), s2\<lparr>world := w4\<rparr>)
                                         | Inr b \<Rightarrow>
                                           (case StateByRoot c w4 r of
                                              (Inl err, w5) \<Rightarrow> Some ((None, None), s2\<lparr>world := w5\<rparr>)
                                            | (Inr st, w5) \<Rightarrow>
                                              (case notifyForkchoiceUpdate bu c fuel (s2\<lparr>world := w5\<rparr>)
                                                      \<lparr>headState = st, headBlock = Some b, headRoot = r,
                                                       attributes = Some attrs\<rparr> of
                                                 None \<Rightarrow> None
                                               | Some ((pid, Some err), s6) \<Rightarrow> Some ((None, Some err), s6)
                                               | Some ((pid, None), s6) \<Rightarrow>
                                                 (case saveHead c (world s6) r b st of
                                                    (saveErr, w7) \<Rightarrow>
                                                      Some ((pid, Some (InvalidBlock ErrInvalidPayload
                                                                          (headRoot arg) zeroHash invalidRoots)),
                                                            s6\<lparr>world := w7\<rparr>)))))))))))
                          else Some ((None, None), s1))
                     | None \<Rightarrow>
                         (case SetOptimisticToValid c w1 (headRoot arg) of
                            (Some err, w2) \<Rightarrow> Some ((None, None), s1\<lparr>world := w2\<rparr>)
                          | (None, w2) \<Rightarrow>
                            (let s2 = s1\<lparr>world := w2\<rparr>;
                                 hasAttr = (\<not> attr_IsEmpty attrs);
                                 nextSlot = CurrentSlot c w2 + 1
                             in (case payloadID of
                                   Some pid \<Rightarrow>
                                     (if hasAttr
                                      then Some ((payloadID, None),
                                                 s2\<lparr>PayloadIDCache :=
                                                      PayloadIDCache_Set (PayloadIDCache s2) nextSlot
                                                        (headRoot arg) (copy8 pid)\<rparr>)
                                      else Some ((payloadID, None), s2))
                                 | None \<Rightarrow> Some ((payloadID, None), s2)))))))))))))))"

subsection \<open>\<^verbatim>\<open>notifyNewPayload\<close> and \<^verbatim>\<open>pruneInvalidBlock\<close>\<close>

definition kzgCommitmentsToVersionedHashes ::
  "('w, 's) collaborators \<Rightarrow> beaconBlockBody \<Rightarrow> error + bytes list" where
  "kzgCommitmentsToVersionedHashes c body =
     (case BlobKzgCommitments body of
        Inl err \<Rightarrow> Inl (Wrap (InvalidBlock err zeroHash zeroHash []) ''could not get blob kzg commitments'')
      | Inr commitments \<Rightarrow> Inr (map (ConvertKzgCommitmentToVersionedHash c) commitments))"

text \<open>
  \<open>blk\<close> is \<open>None\<close> for the nil interface. After \<^verbatim>\<open>BeaconBlockIsNil\<close> the code calls
  \<^verbatim>\<open>blk.Block().Body()\<close> unguarded: on a nil block that is a panic.
\<close>

definition notifyNewPayload ::
  "bytesutil \<Rightarrow> ('w, 's) collaborators \<Rightarrow> 'w service \<Rightarrow> int \<Rightarrow> executionData
     \<Rightarrow> signedBeaconBlock option \<Rightarrow> ((bool \<times> error option) \<times> 'w service) outcome" where
  "notifyNewPayload bu c s preStateVersion preStateHeader blk =
     (case blk of
        None \<Rightarrow> Returned ((False, Some (ErrorNew ''signed beacon block can't be nil'')), s)
      | Some sb \<Rightarrow>
        (if preStateVersion < Bellatrix c then Returned ((True, None), s)
         else (case BeaconBlockIsNil c sb of
           Some err \<Rightarrow> Returned ((False, Some err), s)
         | None \<Rightarrow>
           (case Block sb of
              None \<Rightarrow> Panicked
            | Some inner \<Rightarrow>
              (let body = Body inner
               in (case IsExecutionEnabledUsingHeader c preStateHeader body of
                 Inl err \<Rightarrow>
                   Returned ((False, Some (Wrap (InvalidBlock err zeroHash zeroHash [])
                                             ''could not determine if execution is enabled'')), s)
               | Inr enabled \<Rightarrow>
                 (if \<not> enabled then Returned ((True, None), s)
                  else (case Execution body of
                    Inl err \<Rightarrow>
                      Returned ((False, Some (Wrap (InvalidBlock err zeroHash zeroHash [])
                                                ''could not get execution payload'')), s)
                  | Inr payload \<Rightarrow>
                    (case (if Deneb c \<le> signed_Version sb
                           then (case kzgCommitmentsToVersionedHashes c body of
                                   Inl err \<Rightarrow>
                                     Inl (Wrap err ''could not get versioned hashes to feed the engine'')
                                 | Inr hashes \<Rightarrow> Inr (hashes, Some (ParentRoot inner)))
                           else Inr ([], None)) of
                       Inl err \<Rightarrow> Returned ((False, Some err), s)
                     | Inr (versionedHashes, parentRoot) \<Rightarrow>
                       (case (if Electra c \<le> signed_Version sb
                              then (case ExecutionRequests body of
                                      Inl err \<Rightarrow> Inl (Wrap err ''could not get execution requests'')
                                    | Inr r \<Rightarrow> Inr (Some r))
                              else Inr None) of
                          Inl err \<Rightarrow> Returned ((False, Some err), s)
                        | Inr requests \<Rightarrow>
                          (case NewPayload c (world s) payload versionedHashes parentRoot requests of
                             ((lastValidHash, engineErr), w1) \<Rightarrow>
                             (let s1 = s\<lparr>world := w1,
                                         calls := calls s @
                                           [CallNewPayload payload versionedHashes parentRoot requests]\<rparr>
                              in (case engineErr of
                                    None \<Rightarrow> Returned ((True, None), s1)
                                  | Some err \<Rightarrow>
                                    (if errors_Is err ErrAcceptedSyncingPayloadStatus
                                     then Returned ((False, None), s1)
                                     else if errors_Is err ErrInvalidPayloadStatus
                                     then Returned ((False, Some (InvalidBlock ErrInvalidPayload zeroHash
                                                                    (ToBytes32 bu lastValidHash) [])), s1)
                                     else Returned ((False, Some (WithMessage ErrUndefinedExecutionEngineError
                                                                    err)), s1)))))))))))))))"

text \<open>The record \<^verbatim>\<open>pruneInvalidBlock\<close> builds leaves \<^verbatim>\<open>root\<close> at its zero value.\<close>

definition pruneInvalidBlock ::
  "('w, 's) collaborators \<Rightarrow> 'w service \<Rightarrow> bytes \<Rightarrow> bytes \<Rightarrow> bytes \<Rightarrow> error option \<times> 'w service" where
  "pruneInvalidBlock c s root parentRoot lvh =
     (case SetOptimisticToInvalid c (world s) root parentRoot lvh of
        (invalidated, w1) \<Rightarrow>
        (let s1 = s\<lparr>world := w1, calls := calls s @ [CallSetOptimisticToInvalid root parentRoot lvh]\<rparr>
         in (case invalidated of
           Inl err \<Rightarrow> (Some err, s1)
         | Inr invalidRoots \<Rightarrow>
           (case removeInvalidBlockAndState c w1 invalidRoots of
              (Some err, w2) \<Rightarrow> (Some err, s1\<lparr>world := w2\<rparr>)
            | (None, w2) \<Rightarrow>
                (Some (InvalidBlock ErrInvalidPayload zeroHash lvh invalidRoots), s1\<lparr>world := w2\<rparr>)))))"

subsection \<open>Notions used to state the properties\<close>

text \<open>
  A call of \<open>notifyForkchoiceUpdate\<close> reaches the engine when the head block, its inner
  block and its body are non-nil, the body is an execution block and carries a payload.
  \<open>forkchoiceView\<close> and \<open>attributesSent\<close> are the two arguments the engine is then
  called with; \<open>normalizedLastValidHash\<close> is the hash the INVALID branch hands to
  fork choice.
\<close>

definition reachesEngine ::
  "('w, 's) collaborators \<Rightarrow> 's fcuConfig \<Rightarrow> beaconBlock \<Rightarrow> executionData \<Rightarrow> bool" where
  "reachesEngine c arg headBlk headPayload \<longleftrightarrow>
     (case headBlock arg of
        None \<Rightarrow> False
      | Some hb \<Rightarrow> \<not> signed_IsNil hb \<and> Block hb = Some headBlk)
     \<and> \<not> block_IsNil headBlk \<and> \<not> body_IsNil (Body headBlk)
     \<and> IsExecutionBlock c (Body headBlk) = Inr True
     \<and> Execution (Body headBlk) = Inr headPayload"

definition forkchoiceView :: "('w, 's) collaborators \<Rightarrow> 'w \<Rightarrow> executionData \<Rightarrow> forkchoiceState" where
  "forkchoiceView c w headPayload =
     \<lparr>HeadBlockHash = BlockHash headPayload,
      SafeBlockHash = UnrealizedJustifiedPayloadBlockHash c w,
      FinalizedBlockHash = FinalizedPayloadBlockHash c w\<rparr>"

definition attributesSent :: "('w, 's) collaborators \<Rightarrow> 's fcuConfig \<Rightarrow> beaconBlock \<Rightarrow> attributer" where
  "attributesSent c arg headBlk =
     (case attributes arg of
        None \<Rightarrow> EmptyWithVersion c (block_Version headBlk)
      | Some a \<Rightarrow> a)"

definition normalizedLastValidHash :: "bytesutil \<Rightarrow> bytes \<Rightarrow> bytes" where
  "normalizedLastValidHash bu lastValidHash =
     ToBytes32 bu (if length lastValidHash = 0 then defaultLatestValidHash bu else lastValidHash)"

text \<open>An error carries an invalidity record when it is one or wraps one.\<close>

fun carriesInvalidityRecord :: "error \<Rightarrow> bool" where
  "carriesInvalidityRecord (InvalidBlock e root lvh roots) = True"
| "carriesInvalidityRecord (Wrap e m) = carriesInvalidityRecord e"
| "carriesInvalidityRecord (WithMessage e m) = carriesInvalidityRecord e"
| "carriesInvalidityRecord e = False"

section \<open>Example inputs\<close>

text \<open>
  Instances of the parameters, for evaluating the functions on concrete inputs.
  \<open>zeroPadBytesutil\<close> pads with zero bytes on the right, \<open>ToBytes32\<close> copies into a
  zeroed 32-byte array, \<open>Bytes8\<close> is little-endian.
\<close>

definition zeroPadBytesutil :: bytesutil where
  "zeroPadBytesutil =
     \<lparr>PadTo = (\<lambda>b size. if size \<le> length b then b else b @ replicate (size - length b) 0),
      ToBytes32 = (\<lambda>b. take 32 b @ replicate (32 - length b) 0),
      Bytes8 = (\<lambda>x. map (\<lambda>k. ucast (drop_bit (8 * k) x)) [0..<8])\<rparr>"

definition exampleConfig :: beaconConfig where
  "exampleConfig =
     \<lparr>SubnetsPerNode = 2, EpochsPerSubnetSubscription = 256, AttestationSubnetPrefixBits = 6,
      AttestationSubnetCount = 64, NodeIdBits = 256\<rparr>"

text \<open>A stand-in hash and shuffle: any pair of functions is an instance.\<close>

definition exampleHelpers :: subnetHelpers where
  "exampleHelpers =
     \<lparr>Hash = (\<lambda>b. take 32 b @ replicate (32 - length b) 0),
      ComputeShuffledIndex = (\<lambda>index indexCount seed shuffle.
        if indexCount \<le> index then Inl (External 0)
        else Inr ((index + ucast (case seed of [] \<Rightarrow> 0 | x # xs \<Rightarrow> x)) mod indexCount))\<rparr>"

definition exampleNodeID :: bytes where
  "exampleNodeID = 0x80 # replicate 30 0 @ [200]"



text \<open>A second instance of the byte helpers, whose \<open>PadTo\<close> repeats its input up to the size.\<close>

definition repeatPadBytesutil :: bytesutil where
  "repeatPadBytesutil =
     zeroPadBytesutil\<lparr>PadTo := (\<lambda>b size. if size \<le> length b then b
                                           else take size (concat (replicate size b)))\<rparr>"

definition exampleNetworkConfig :: networkConfig where
  "exampleNetworkConfig = \<lparr>AttSubnetKey = ''attnets'', SyncCommsSubnetKey = ''syncnets''\<rparr>"

definition exampleP2pService :: "nat p2pService" where
  "exampleP2pService =
     \<lparr>dv5Listener = Some Map.empty, metaData = MetaDataV1 7 (replicate 8 0) [0],
      net = 0, dialed = []\<rparr>"

text \<open>
  A network whose state is the number of dials made so far: four peers on every topic
  at the start, one more per dial; every read of the iterator yields nodes 1, 2, 3.
\<close>

definition exampleDiscovery :: "nat discovery" where
  "exampleDiscovery =
     \<lparr>ProtocolSuffix = ''/ssz_snappy'',
      GossipAttestationMessage = ''beacon_attestation'',
      GossipSyncCommitteeMessage = ''sync_committee'',
      ListPeers = (\<lambda>p topic. [0..<4 + p]),
      ctxErr = (\<lambda>p. None),
      MinimumPeersInSubnetSearch = 20,
      MaxDialIsActive = False,
      MaxConcurrentDials = 0,
      ReadNodes = (\<lambda>p f n. ([1, 2, 3], p)),
      convertToAddrInfo = (\<lambda>node. Inr (Some node)),
      connectWithPeer = (\<lambda>p info. Suc p)\<rparr>"

text \<open>
  A chain for the engine coordinator: block A (payload hash \<open>hashA\<close>) on top of block B
  (payload hash \<open>hashB\<close>). The world counts the calls that change it. The engine
  answers INVALID with an empty last valid hash for \<open>hashA\<close> and VALID with a payload id
  otherwise; fork choice invalidates A and a descendant D, and then has B as head.
\<close>

definition rootA :: bytes where
  "rootA = replicate 32 0xAA"

definition rootB :: bytes where
  "rootB = replicate 32 0xBB"

definition rootC :: bytes where
  "rootC = replicate 32 0xCC"

definition rootD :: bytes where
  "rootD = replicate 32 0xAD"

definition hashA :: bytes where
  "hashA = replicate 32 1"

definition hashB :: bytes where
  "hashB = replicate 32 2"

definition exampleHeadBlk :: "bytes \<Rightarrow> bytes \<Rightarrow> uint64 \<Rightarrow> beaconBlock" where
  "exampleHeadBlk payloadHash parent slot =
     \<lparr>block_IsNil = False,
      Body = \<lparr>body_IsNil = False, Execution = Inr \<lparr>BlockHash = payloadHash\<rparr>,
              BlobKzgCommitments = Inr [], ExecutionRequests = Inr 0\<rparr>,
      ParentRoot = parent, block_Version = 4, Slot = slot\<rparr>"

definition exampleBlock :: "bytes \<Rightarrow> bytes \<Rightarrow> uint64 \<Rightarrow> signedBeaconBlock" where
  "exampleBlock payloadHash parent slot =
     \<lparr>signed_IsNil = False, Block = Some (exampleHeadBlk payloadHash parent slot),
      signed_Version = 4\<rparr>"

definition examplePayloadID :: bytes where
  "examplePayloadID = [1, 2, 3, 4, 5, 6, 7, 8]"

definition exampleCollaborators :: "(nat, nat) collaborators" where
  "exampleCollaborators =
     \<lparr>IsExecutionBlock = (\<lambda>body. Inr True),
      FinalizedPayloadBlockHash = (\<lambda>w. replicate 32 0),
      UnrealizedJustifiedPayloadBlockHash = (\<lambda>w. replicate 32 0),
      EmptyWithVersion = (\<lambda>v. \<lparr>attr_IsEmpty = True, attr_Version = v\<rparr>),
      ForkchoiceUpdated = (\<lambda>w fcs attrs.
        if HeadBlockHash fcs = hashA then ((None, [], Some ErrInvalidPayloadStatus), Suc w)
        else ((Some examplePayloadID, [], None), Suc w)),
      SetOptimisticToInvalid = (\<lambda>w root parent lvh. (Inr [rootA, rootD], Suc w)),
      SetOptimisticToValid = (\<lambda>w root. (None, Suc w)),
      Head = (\<lambda>w. (Inr rootB, w)),
      getBlock = (\<lambda>w root. if root = rootB then Inr (exampleBlock hashB rootC 9) else Inl (External 2)),
      StateByRoot = (\<lambda>w root. (Inr 0, w)),
      saveHead = (\<lambda>w r b st. (None, Suc w)),
      CurrentSlot = (\<lambda>w. 100),
      DeleteStateFromCaches = (\<lambda>w root. (None, Suc w)),
      DeleteBlock = (\<lambda>w root. (None, Suc w)),
      blobStorage_Remove = (\<lambda>w root. (Some (External 3), w)),
      Bellatrix = 2,
      Deneb = 4,
      Electra = 5,
      BeaconBlockIsNil = (\<lambda>sb. None),
      IsExecutionEnabledUsingHeader = (\<lambda>header body. Inr True),
      ConvertKzgCommitmentToVersionedHash = (\<lambda>commitment. commitment),
      NewPayload = (\<lambda>w payload hashes parent requests. (([], None), Suc w))\<rparr>"

text \<open>The same, with a fork choice that fails to invalidate.\<close>

definition invalidationFails :: "(nat, nat) collaborators" where
  "invalidationFails =
     exampleCollaborators\<lparr>SetOptimisticToInvalid := (\<lambda>w root parent lvh. (Inl (External 1), w))\<rparr>"

text \<open>The same, with an engine that answers VALID and returns no payload id.\<close>

definition noPayloadID :: "(nat, nat) collaborators" where
  "noPayloadID =
     exampleCollaborators\<lparr>ForkchoiceUpdated := (\<lambda>w fcs attrs. ((None, [], None), Suc w))\<rparr>"

definition exampleService :: "nat service" where
  "exampleService = \<lparr>world = 0, PayloadIDCache = Map.empty, calls = []\<rparr>"

definition exampleAttributes :: attributer where
  "exampleAttributes = \<lparr>attr_IsEmpty = False, attr_Version = 4\<rparr>"

definition exampleArg :: "nat fcuConfig" where
  "exampleArg =
     \<lparr>headState = 0, headBlock = Some (exampleBlock hashA rootB 10), headRoot = rootA,
      attributes = Some exampleAttributes\<rparr>"

definition exampleArgB :: "nat fcuConfig" where
  "exampleArgB =
     \<lparr>headState = 0, headBlock = Some (exampleBlock hashB rootC 9), headRoot = rootB,
      attributes = Some exampleAttributes\<rparr>"

text \<open>The service after the recovery run on \<open>exampleArg\<close>.\<close>

definition exampleRecovered :: "nat service" where
  "exampleRecovered =
     \<lparr>world = 9, PayloadIDCache = [(101, rootB) \<mapsto> examplePayloadID],
      calls = [CallForkchoiceUpdated
                 \<lparr>HeadBlockHash = hashA, SafeBlockHash = replicate 32 0,
                  FinalizedBlockHash = replicate 32 0\<rparr> exampleAttributes,
               CallSetOptimisticToInvalid rootA rootB (0xff # replicate 31 0),
               CallForkchoiceUpdated
                 \<lparr>HeadBlockHash = hashB, SafeBlockHash = replicate 32 0,
                  FinalizedBlockHash = replicate 32 0\<rparr> exampleAttributes]\<rparr>"

section \<open>Properties of the subnet assignment\<close>

lemma unat_inc_below: "(i::uint64) < n \<Longrightarrow> unat (i + 1) = Suc (unat i)"
proof -
  assume "i < n"
  then have "i + 1 \<noteq> 0"
    by (metis add.commute add.right_inverse add_left_cancel word_order.extremum_strict)
  then show ?thesis
    by (simp add: unatSuc add.commute)
qed

lemma computeSubscribedSubnet_range:
  "computeSubscribedSubnet cfg bu h nodeID epoch i = Returned (Inr sub)
   \<Longrightarrow> sub < AttestationSubnetCount cfg"
  by (auto simp: computeSubscribedSubnet_def Let_def word_mod_less_divisor word_neq_0_conv
           split: prod.splits if_splits sum.splits)

text \<open>
  The loop's invariant: started at \<open>i \<le> n\<close> with every collected subnet in range, a
  run that returns a list has added one entry per remaining index, all in range.
\<close>

lemma subscribedSubnetsLoop_inv:
  "subscribedSubnetsLoop cfg bu h nodeID epoch n i acc = Returned (Inr subs)
   \<Longrightarrow> i \<le> n
   \<Longrightarrow> \<forall>s \<in> set acc. s < AttestationSubnetCount cfg
   \<Longrightarrow> length subs = length acc + (unat n - unat i)
       \<and> (\<forall>s \<in> set subs. s < AttestationSubnetCount cfg)"
proof (induction cfg bu h nodeID epoch n i acc rule: subscribedSubnetsLoop.induct)
  case (1 cfg bu h nodeID epoch n i acc)
  show ?case
  proof (cases "i < n")
    case False
    with "1.prems" have "i = n" by simp
    with "1.prems" show ?thesis by simp
  next
    case True
    from True "1.prems"(1) obtain sub where
      sub: "computeSubscribedSubnet cfg bu h nodeID epoch i = Returned (Inr sub)"
      and rec: "subscribedSubnetsLoop cfg bu h nodeID epoch n (i + 1) (acc @ [sub]) = Returned (Inr subs)"
      by (auto split: outcome.splits sum.splits)
    have le: "i + 1 \<le> n" using True by (rule inc_le)
    have rng: "\<forall>s \<in> set (acc @ [sub]). s < AttestationSubnetCount cfg"
      using "1.prems"(3) computeSubscribedSubnet_range [OF sub] by simp
    from "1.IH" [OF True sub refl rec le rng]
    have "length subs = length (acc @ [sub]) + (unat n - unat (i + 1))"
      and all: "\<forall>s \<in> set subs. s < AttestationSubnetCount cfg"
      by simp_all
    moreover have "unat (i + 1) = Suc (unat i)" using True by (rule unat_inc_below)
    moreover have "unat i < unat n" using True by (simp add: word_less_nat_alt)
    ultimately show ?thesis by simp
  qed
qed

lemma example_subnets:
  "computeSubscribedSubnets exampleConfig zeroPadBytesutil exampleHelpers exampleNodeID 12345
     = Returned (Inr [17, 18])"
  by code_simp

text \<open>
  C6. Whenever \<open>computeSubscribedSubnets\<close> succeeds for a node id and an epoch, the list
  it returns has exactly \<open>SubnetsPerNode\<close> entries, and every entry is below
  \<open>AttestationSubnetCount\<close>. Nothing is said about duplicates: two entries may be equal.
\<close>

theorem computeSubscribedSubnets_length_range:
  "computeSubscribedSubnets cfg bu h nodeID epoch = Returned (Inr subs)
   \<Longrightarrow> length subs = unat (SubnetsPerNode cfg)
       \<and> (\<forall>s \<in> set subs. s < AttestationSubnetCount cfg)"
  using subscribedSubnetsLoop_inv [of cfg bu h nodeID epoch "SubnetsPerNode cfg" 0 "[]" subs]
  by (simp add: computeSubscribedSubnets_def)

theorem computeSubscribedSubnets_length_range_witness:
  "computeSubscribedSubnets exampleConfig zeroPadBytesutil exampleHelpers exampleNodeID 12345
     = Returned (Inr [17, 18])
   \<and> length [17, 18 :: uint64] = unat (SubnetsPerNode exampleConfig)
   \<and> (17 :: uint64) < AttestationSubnetCount exampleConfig
   \<and> (18 :: uint64) < AttestationSubnetCount exampleConfig"
  using computeSubscribedSubnets_length_range [OF example_subnets] example_subnets
  by simp

lemma computeSubscribedSubnet_seed:
  "(fst (computeOffsetAndPrefix cfg nodeID) + e1) div EpochsPerSubnetSubscription cfg
     = (fst (computeOffsetAndPrefix cfg nodeID) + e2) div EpochsPerSubnetSubscription cfg
   \<Longrightarrow> computeSubscribedSubnet cfg bu h nodeID e1 i = computeSubscribedSubnet cfg bu h nodeID e2 i"
  by (cases "computeOffsetAndPrefix cfg nodeID") (simp add: computeSubscribedSubnet_def Let_def)

lemma subscribedSubnetsLoop_seed:
  "(fst (computeOffsetAndPrefix cfg nodeID) + e1) div EpochsPerSubnetSubscription cfg
     = (fst (computeOffsetAndPrefix cfg nodeID) + e2) div EpochsPerSubnetSubscription cfg
   \<Longrightarrow> subscribedSubnetsLoop cfg bu h nodeID e1 n i acc = subscribedSubnetsLoop cfg bu h nodeID e2 n i acc"
proof (induction cfg bu h nodeID e1 n i acc rule: subscribedSubnetsLoop.induct)
  case (1 cfg bu h nodeID epoch n i acc)
  note eq = computeSubscribedSubnet_seed [OF "1.prems", of bu h i]
  show ?case
  proof (cases "i < n")
    case False
    then show ?thesis by simp
  next
    case True
    show ?thesis
    proof (cases "computeSubscribedSubnet cfg bu h nodeID epoch i")
      case Panicked
      moreover from Panicked eq have "computeSubscribedSubnet cfg bu h nodeID e2 i = Panicked"
        by simp
      ultimately show ?thesis using True by simp
    next
      case (Returned r)
      show ?thesis
      proof (cases r)
        case (Inl err)
        with Returned have a: "computeSubscribedSubnet cfg bu h nodeID epoch i = Returned (Inl err)"
          by simp
        with eq have b: "computeSubscribedSubnet cfg bu h nodeID e2 i = Returned (Inl err)"
          by simp
        from True a b show ?thesis by simp
      next
        case (Inr sub)
        with Returned have a: "computeSubscribedSubnet cfg bu h nodeID epoch i = Returned (Inr sub)"
          by simp
        with eq have b: "computeSubscribedSubnet cfg bu h nodeID e2 i = Returned (Inr sub)"
          by simp
        from "1.IH" [OF True Returned Inr "1.prems"] True a b show ?thesis
          by simp
      qed
    qed
  qed
qed

text \<open>
  The epoch enters the assignment only through the seed input: two epochs with the same
  uint64 quotient \<open>(nodeOffset + epoch) / EpochsPerSubnetSubscription\<close> get the same
  result (the same list, the same error, or the same panic).
\<close>

lemma computeSubscribedSubnets_same_seedInput:
  "(fst (computeOffsetAndPrefix cfg nodeID) + e1) div EpochsPerSubnetSubscription cfg
     = (fst (computeOffsetAndPrefix cfg nodeID) + e2) div EpochsPerSubnetSubscription cfg
   \<Longrightarrow> computeSubscribedSubnets cfg bu h nodeID e1 = computeSubscribedSubnets cfg bu h nodeID e2"
  unfolding computeSubscribedSubnets_def by (rule subscribedSubnetsLoop_seed)













section \<open>Properties of the record update and the peer search\<close>

text \<open>
  C8. A call of \<open>updateSubnetRecordWithMetadataV2\<close> on a service whose discovery
  listener is set returns, and after it the metadata's sequence number is the previous
  one plus one (uint64 addition) and its attestation and sync bitfields are the two
  arguments; a second call right after it returns too, and gives the next sequence
  number and the second call's bitfields.
\<close>

theorem updateSubnetRecordWithMetadataV2_sequence:
  "dv5Listener s = Some node
   \<Longrightarrow> \<exists>s1 s2.
         updateSubnetRecordWithMetadataV2 nc s att1 sync1 = Returned s1
       \<and> updateSubnetRecordWithMetadataV2 nc s1 att2 sync2 = Returned s2
       \<and> SequenceNumber (metaData s1) = SequenceNumber (metaData s) + 1
       \<and> AttnetsBitfield (metaData s1) = att1
       \<and> SyncnetsBitfield (metaData s1) = Some sync1
       \<and> SequenceNumber (metaData s2) = SequenceNumber (metaData s1) + 1
       \<and> AttnetsBitfield (metaData s2) = att2
       \<and> SyncnetsBitfield (metaData s2) = Some sync2"
  by (simp add: updateSubnetRecordWithMetadataV2_def)

theorem updateSubnetRecordWithMetadataV2_sequence_witness:
  "dv5Listener exampleP2pService = Some Map.empty
   \<and> (\<exists>s1 s2.
         updateSubnetRecordWithMetadataV2 exampleNetworkConfig exampleP2pService [1] [2] = Returned s1
       \<and> updateSubnetRecordWithMetadataV2 exampleNetworkConfig s1 [3] [4] = Returned s2
       \<and> SequenceNumber (metaData s1) = 8
       \<and> AttnetsBitfield (metaData s1) = [1]
       \<and> SyncnetsBitfield (metaData s1) = Some [2]
       \<and> SequenceNumber (metaData s2) = 9
       \<and> AttnetsBitfield (metaData s2) = [3]
       \<and> SyncnetsBitfield (metaData s2) = Some [4])"
proof -
  have l: "dv5Listener exampleP2pService = Some Map.empty"
    by (simp add: exampleP2pService_def)
  have m: "SequenceNumber (metaData exampleP2pService) = 7"
    by (simp add: exampleP2pService_def)
  from updateSubnetRecordWithMetadataV2_sequence [OF l, of exampleNetworkConfig "[1]" "[2]" "[3]" "[4]"]
  show ?thesis using l m by auto
qed

text \<open>The first test of the loop: with the threshold met, it ends at once.\<close>

lemma findPeersLoop_met:
  "threshold \<le> int (length (ListPeers d (net s) topic))
   \<Longrightarrow> findPeersLoop d iterator topic threshold s = Some ((True, None), s)"
  by (subst findPeersLoop.simps) (simp add: Let_def)

lemma example_topic:
  "sublist (GossipAttestationMessage exampleDiscovery)
     (''/eth2/00000000/beacon_attestation_7'' @ ProtocolSuffix exampleDiscovery)"
  by code_simp

lemma exampleDiscovery_fields:
  "ListPeers exampleDiscovery p topic = [0..<4 + p]"
  "ctxErr exampleDiscovery p = None"
  "MinimumPeersInSubnetSearch exampleDiscovery = 20"
  "MaxDialIsActive exampleDiscovery = False"
  "ReadNodes exampleDiscovery p f n = ([1, 2, 3], p)"
  "convertToAddrInfo exampleDiscovery node = Inr (Some node)"
  "connectWithPeer exampleDiscovery p info = Suc p"
  by (simp_all add: exampleDiscovery_def)

text \<open>
  For contrast, a search that starts below its threshold: with four peers and a
  threshold of six, one batch of three dials is made before the loop ends.
\<close>

lemma FindPeersWithSubnet_example_dials:
  "FindPeersWithSubnet exampleDiscovery exampleP2pService ''/eth2/00000000/beacon_attestation_7'' 7 6
   = Some ((True, None), exampleP2pService\<lparr>net := 3, dialed := [1, 2, 3]\<rparr>)"
  using example_topic
  by (simp add: FindPeersWithSubnet_def Let_def findPeersLoop.simps [of exampleDiscovery]
        exampleP2pService_def exampleDiscovery_fields)

text \<open>
  C9. With discovery set and a topic that, with the protocol suffix appended, contains
  the attestation or the sync-committee message name: if the pubsub peer count of the
  suffixed topic is at least the threshold when the loop is entered,
  \<open>FindPeersWithSubnet\<close> returns \<open>(true, nil)\<close> and leaves the service as it was, the
  list of dialled peers included: no peer is dialled.
\<close>

theorem FindPeersWithSubnet_threshold_met:
  "dv5Listener s = Some listener
   \<Longrightarrow> sublist (GossipAttestationMessage d) (topic @ ProtocolSuffix d)
       \<or> sublist (GossipSyncCommitteeMessage d) (topic @ ProtocolSuffix d)
   \<Longrightarrow> threshold \<le> int (length (ListPeers d (net s) (topic @ ProtocolSuffix d)))
   \<Longrightarrow> FindPeersWithSubnet d s topic index threshold = Some ((True, None), s)"
  by (auto simp: FindPeersWithSubnet_def Let_def findPeersLoop_met)

theorem FindPeersWithSubnet_threshold_met_witness:
  "dv5Listener exampleP2pService = Some Map.empty
   \<and> sublist (GossipAttestationMessage exampleDiscovery)
       (''/eth2/00000000/beacon_attestation_7'' @ ProtocolSuffix exampleDiscovery)
   \<and> (4::int) \<le> int (length (ListPeers exampleDiscovery (net exampleP2pService)
                         (''/eth2/00000000/beacon_attestation_7'' @ ProtocolSuffix exampleDiscovery)))
   \<and> FindPeersWithSubnet exampleDiscovery exampleP2pService ''/eth2/00000000/beacon_attestation_7'' 7 4
       = Some ((True, None), exampleP2pService)"
proof -
  have l: "dv5Listener exampleP2pService = Some Map.empty"
    by (simp add: exampleP2pService_def)
  have t: "sublist (GossipAttestationMessage exampleDiscovery)
       (''/eth2/00000000/beacon_attestation_7'' @ ProtocolSuffix exampleDiscovery)
     \<or> sublist (GossipSyncCommitteeMessage exampleDiscovery)
       (''/eth2/00000000/beacon_attestation_7'' @ ProtocolSuffix exampleDiscovery)"
    using example_topic by simp
  have n: "(4::int) \<le> int (length (ListPeers exampleDiscovery (net exampleP2pService)
                         (''/eth2/00000000/beacon_attestation_7'' @ ProtocolSuffix exampleDiscovery)))"
    by (simp add: exampleDiscovery_def exampleP2pService_def)
  from FindPeersWithSubnet_threshold_met [OF l t n, of 7] l example_topic n
  show ?thesis by simp
qed

section \<open>Properties of the engine coordinator\<close>

text \<open>What the code has checked when the engine is called.\<close>

lemma reachesEngineD:
  assumes "reachesEngine c arg headBlk headPayload"
  obtains hb where "headBlock arg = Some hb" "\<not> signed_IsNil hb" "Block hb = Some headBlk"
    "\<not> block_IsNil headBlk" "\<not> body_IsNil (Body headBlk)"
    "IsExecutionBlock c (Body headBlk) = Inr True" "Execution (Body headBlk) = Inr headPayload"
  using assms by (auto simp: reachesEngine_def split: option.splits)

text \<open>An error chain ends in one sentinel: INVALID is not also SYNCING/ACCEPTED.\<close>

lemma invalid_not_accepted:
  "errors_Is err ErrInvalidPayloadStatus \<Longrightarrow> \<not> errors_Is err ErrAcceptedSyncingPayloadStatus"
  by (induction err) auto

text \<open>A call only appends to the list of calls made, by induction on the fuel.\<close>

lemma notifyForkchoiceUpdate_calls_grow:
  "notifyForkchoiceUpdate bu c n s arg = Some (res, s') \<Longrightarrow> \<exists>later. calls s' = calls s @ later"
proof (induction n arbitrary: s arg res s')
  case 0
  then show ?case by simp
next
  case (Suc n)
  have step: "\<And>s0 a r t. notifyForkchoiceUpdate bu c n s0 a = Some (r, t) \<Longrightarrow> \<exists>zs. calls t = calls s0 @ zs"
    using Suc.IH by blast
  from Suc.prems show ?case
    apply (simp add: Let_def split: option.splits if_splits sum.splits prod.splits)
    apply (auto dest!: step)
    done
qed

text \<open>
  The path of the default last valid hash. When a call of \<open>notifyForkchoiceUpdate\<close>
  reaches the engine, the engine reports INVALID with an empty last valid hash, and the
  call returns, the call made to \<open>SetOptimisticToInvalid\<close> right after the engine's
  answer carries the head root, the head block's parent root and
  \<open>ToBytes32 (defaultLatestValidHash)\<close>, where \<open>defaultLatestValidHash\<close> is
  \<^verbatim>\<open>PadTo([]byte{0xff}, 32)\<close>. Which 32 bytes these are is for \<open>PadTo\<close> and \<open>ToBytes32\<close>
  to say, and both are parameters here: the file does not fix them.
\<close>

lemma notifyForkchoiceUpdate_invalid_passes_default:
  assumes re: "reachesEngine c arg headBlk headPayload"
    and fcu: "ForkchoiceUpdated c (world s) (forkchoiceView c (world s) headPayload)
                (attributesSent c arg headBlk) = ((payloadID, [], Some err), w1)"
    and inv: "errors_Is err ErrInvalidPayloadStatus"
    and ret: "notifyForkchoiceUpdate bu c (Suc fuel) s arg = Some (res, s')"
  shows "\<exists>later. calls s' =
           calls s @ [CallForkchoiceUpdated (forkchoiceView c (world s) headPayload)
                        (attributesSent c arg headBlk),
                      CallSetOptimisticToInvalid (headRoot arg) (ParentRoot headBlk)
                        (ToBytes32 bu (defaultLatestValidHash bu))] @ later"
proof -
  from re obtain hb where hb: "headBlock arg = Some hb" "\<not> signed_IsNil hb" "Block hb = Some headBlk"
    "\<not> block_IsNil headBlk" "\<not> body_IsNil (Body headBlk)"
    "IsExecutionBlock c (Body headBlk) = Inr True" "Execution (Body headBlk) = Inr headPayload"
    by (rule reachesEngineD)
  note na = invalid_not_accepted [OF inv]
  have step: "\<And>s0 a r t. notifyForkchoiceUpdate bu c fuel s0 a = Some (r, t) \<Longrightarrow> \<exists>zs. calls t = calls s0 @ zs"
    by (rule notifyForkchoiceUpdate_calls_grow)
  from ret hb fcu inv na show ?thesis
    apply (simp add: Let_def forkchoiceView_def attributesSent_def
             split: option.splits if_splits sum.splits prod.splits)
    apply (auto dest!: step)
    done
qed

lemmas example_defs = exampleCollaborators_def invalidationFails_def noPayloadID_def exampleService_def
  exampleAttributes_def exampleArg_def exampleArgB_def exampleBlock_def exampleHeadBlk_def
  rootA_def rootB_def rootC_def rootD_def hashA_def hashB_def examplePayloadID_def
  zeroPadBytesutil_def defaultLatestValidHash_def zeroHash_def

lemma example_reaches:
  "reachesEngine exampleCollaborators exampleArg (exampleHeadBlk hashA rootB 10) \<lparr>BlockHash = hashA\<rparr>"
  by (simp add: reachesEngine_def exampleArg_def exampleBlock_def exampleHeadBlk_def exampleCollaborators_def)

lemma example_sentinel:
  "ToBytes32 zeroPadBytesutil (defaultLatestValidHash zeroPadBytesutil) = 0xff # replicate 31 0"
  by (simp add: zeroPadBytesutil_def defaultLatestValidHash_def)

lemma example_recovery:
  "notifyForkchoiceUpdate zeroPadBytesutil exampleCollaborators (Suc (Suc 0)) exampleService exampleArg
   = Some ((Some examplePayloadID, Some (InvalidBlock ErrInvalidPayload rootA zeroHash [rootA, rootD])),
           exampleRecovered)"
  by (simp add: example_defs exampleRecovered_def Let_def PayloadIDCache_Set_def copy8_def)

lemma example_engine_invalid:
  "ForkchoiceUpdated exampleCollaborators (world exampleService)
     (forkchoiceView exampleCollaborators (world exampleService) \<lparr>BlockHash = hashA\<rparr>)
     (attributesSent exampleCollaborators exampleArg (exampleHeadBlk hashA rootB 10))
   = ((None, [], Some ErrInvalidPayloadStatus), 1)"
  by (simp add: forkchoiceView_def attributesSent_def exampleCollaborators_def exampleService_def
        exampleArg_def)

text \<open>
  Two instances show the dependence: under a \<open>PadTo\<close> that fills with zero bytes the
  hash is the byte 0xff followed by 31 zero bytes (\<open>example_sentinel\<close>, and the second
  call recorded in \<open>exampleRecovered\<close>); under one that repeats its input it is 32 bytes
  0xff.
\<close>

lemma repeatPad_sentinel:
  "ToBytes32 repeatPadBytesutil (defaultLatestValidHash repeatPadBytesutil) = replicate 32 0xff"
  by (simp add: repeatPadBytesutil_def zeroPadBytesutil_def defaultLatestValidHash_def)

lemma sentinels_differ:
  "ToBytes32 zeroPadBytesutil (defaultLatestValidHash zeroPadBytesutil)
   \<noteq> ToBytes32 repeatPadBytesutil (defaultLatestValidHash repeatPadBytesutil)"
proof -
  have "0xff # replicate 31 0 \<noteq> replicate 32 (0xff :: byte)"
    by code_simp
  then show ?thesis
    by (simp only: example_sentinel repeatPad_sentinel) simp
qed

text \<open>
  C2, as the code has it. When a call of \<open>notifyForkchoiceUpdate\<close> with supplied,
  non-empty attributes reaches the engine, the engine answers VALID (nil error) with a
  non-nil payload id, and \<open>SetOptimisticToValid\<close> succeeds, the call returns that
  payload id with a nil error, and afterwards the payload-id cache maps
  \<open>(CurrentSlot + 1, headRoot)\<close> to the payload id. The slot is read after
  \<open>SetOptimisticToValid\<close>, and the sum is a uint64 one.
\<close>

theorem notifyForkchoiceUpdate_valid_caches:
  assumes re: "reachesEngine c arg headBlk headPayload"
    and at: "attributes arg = Some a" "\<not> attr_IsEmpty a"
    and fcu: "ForkchoiceUpdated c (world s) (forkchoiceView c (world s) headPayload) a
                = ((Some pid, lastValidHash, None), w1)"
    and sov: "SetOptimisticToValid c w1 (headRoot arg) = (None, w2)"
  shows "\<exists>s'. notifyForkchoiceUpdate bu c (Suc fuel) s arg = Some ((Some pid, None), s')
            \<and> PayloadIDCache s' (CurrentSlot c w2 + 1, headRoot arg) = Some (copy8 pid)"
proof -
  from re obtain hb where hb: "headBlock arg = Some hb" "\<not> signed_IsNil hb" "Block hb = Some headBlk"
    "\<not> block_IsNil headBlk" "\<not> body_IsNil (Body headBlk)"
    "IsExecutionBlock c (Body headBlk) = Inr True" "Execution (Body headBlk) = Inr headPayload"
    by (rule reachesEngineD)
  from hb at fcu sov show ?thesis
    by (simp add: Let_def forkchoiceView_def PayloadIDCache_Set_def)
qed

lemma example_reaches_B:
  "reachesEngine exampleCollaborators exampleArgB (exampleHeadBlk hashB rootC 9) \<lparr>BlockHash = hashB\<rparr>"
  by (simp add: reachesEngine_def exampleArgB_def exampleBlock_def exampleHeadBlk_def exampleCollaborators_def)

theorem notifyForkchoiceUpdate_valid_caches_witness:
  "reachesEngine exampleCollaborators exampleArgB (exampleHeadBlk hashB rootC 9) \<lparr>BlockHash = hashB\<rparr>
   \<and> attributes exampleArgB = Some exampleAttributes
   \<and> \<not> attr_IsEmpty exampleAttributes
   \<and> ForkchoiceUpdated exampleCollaborators (world exampleService)
        (forkchoiceView exampleCollaborators (world exampleService) \<lparr>BlockHash = hashB\<rparr>) exampleAttributes
      = ((Some examplePayloadID, [], None), 1)
   \<and> SetOptimisticToValid exampleCollaborators 1 (headRoot exampleArgB) = (None, 2)
   \<and> (\<exists>s'. notifyForkchoiceUpdate zeroPadBytesutil exampleCollaborators (Suc 0) exampleService exampleArgB
              = Some ((Some examplePayloadID, None), s')
            \<and> PayloadIDCache s' (101, rootB) = Some examplePayloadID)"
proof -
  have at: "attributes exampleArgB = Some exampleAttributes" "\<not> attr_IsEmpty exampleAttributes"
    by (simp_all add: exampleArgB_def exampleAttributes_def)
  have fcu: "ForkchoiceUpdated exampleCollaborators (world exampleService)
        (forkchoiceView exampleCollaborators (world exampleService) \<lparr>BlockHash = hashB\<rparr>) exampleAttributes
      = ((Some examplePayloadID, [], None), 1)"
    by (simp add: forkchoiceView_def exampleCollaborators_def exampleService_def hashA_def hashB_def)
  have sov: "SetOptimisticToValid exampleCollaborators 1 (headRoot exampleArgB) = (None, 2)"
    by (simp add: exampleCollaborators_def)
  have k: "CurrentSlot exampleCollaborators 2 + 1 = 101" "headRoot exampleArgB = rootB"
    "copy8 examplePayloadID = examplePayloadID"
    by (simp_all add: exampleCollaborators_def exampleArgB_def copy8_def examplePayloadID_def)
  from notifyForkchoiceUpdate_valid_caches [OF example_reaches_B at fcu sov, of zeroPadBytesutil 0]
    example_reaches_B at fcu sov k
  show ?thesis by simp
qed

theorem notifyForkchoiceUpdate_valid_caches_counterexample:
  "attributes exampleArg = Some exampleAttributes
   \<and> \<not> attr_IsEmpty exampleAttributes
   \<and> ForkchoiceUpdated noPayloadID (world exampleService)
        (forkchoiceView noPayloadID (world exampleService) \<lparr>BlockHash = hashA\<rparr>) exampleAttributes
      = ((None, [], None), 1)
   \<and> CurrentSlot noPayloadID 2 + 1 = 101
   \<and> map_option (\<lambda>r. (fst r, PayloadIDCache (snd r) (101, rootA)))
        (notifyForkchoiceUpdate zeroPadBytesutil noPayloadID (Suc 0) exampleService exampleArg)
      = Some ((None, None), None)"
  by (simp add: example_defs forkchoiceView_def Let_def)

text \<open>
  C3, as the code has it. When a call of \<open>notifyForkchoiceUpdate\<close> reaches the engine and
  the engine reports INVALID, and then \<open>SetOptimisticToInvalid\<close>, the removal of the
  invalidated roots, \<open>Head\<close>, \<open>getBlock\<close> and \<open>StateByRoot\<close> all succeed and the
  recursive call on the new head returns a payload id with a nil error, the call
  returns that payload id together with the invalidity record whose root is the head
  root submitted and whose invalid ancestor roots are the roots
  \<open>SetOptimisticToInvalid\<close> returned (its last valid hash is left zero); the new head
  has then been saved.
\<close>

theorem notifyForkchoiceUpdate_invalid_recovery:
  assumes re: "reachesEngine c arg headBlk headPayload"
    and fcu: "ForkchoiceUpdated c (world s) (forkchoiceView c (world s) headPayload)
                (attributesSent c arg headBlk) = ((payloadID, lastValidHash, Some err), w1)"
    and inv: "errors_Is err ErrInvalidPayloadStatus"
    and soti: "SetOptimisticToInvalid c w1 (headRoot arg) (ParentRoot headBlk)
                 (normalizedLastValidHash bu lastValidHash) = (Inr invalidRoots, w2)"
    and rm: "removeInvalidBlockAndState c w2 invalidRoots = (None, w3)"
    and hd: "Head c w3 = (Inr r, w4)"
    and gb: "getBlock c w4 r = Inr b"
    and sr: "StateByRoot c w4 r = (Inr st, w5)"
    and rc: "notifyForkchoiceUpdate bu c fuel
               (s\<lparr>world := w5,
                  calls := calls s @
                    [CallForkchoiceUpdated (forkchoiceView c (world s) headPayload)
                       (attributesSent c arg headBlk),
                     CallSetOptimisticToInvalid (headRoot arg) (ParentRoot headBlk)
                       (normalizedLastValidHash bu lastValidHash)]\<rparr>)
               \<lparr>headState = st, headBlock = Some b, headRoot = r,
                attributes = Some (attributesSent c arg headBlk)\<rparr>
             = Some ((pid, None), s6)"
  shows "notifyForkchoiceUpdate bu c (Suc fuel) s arg =
           Some ((pid, Some (InvalidBlock ErrInvalidPayload (headRoot arg) zeroHash invalidRoots)),
                 s6\<lparr>world := snd (saveHead c (world s6) r b st)\<rparr>)"
proof -
  from re obtain hb where hb: "headBlock arg = Some hb" "\<not> signed_IsNil hb" "Block hb = Some headBlk"
    "\<not> block_IsNil headBlk" "\<not> body_IsNil (Body headBlk)"
    "IsExecutionBlock c (Body headBlk) = Inr True" "Execution (Body headBlk) = Inr headPayload"
    by (rule reachesEngineD)
  note na = invalid_not_accepted [OF inv]
  obtain w0 cache cs where s: "s = \<lparr>world = w0, PayloadIDCache = cache, calls = cs\<rparr>"
    by (cases s)
  from hb fcu inv na soti rm hd gb sr rc show ?thesis
    by (cases "lastValidHash = []")
       (simp_all add: s Let_def forkchoiceView_def attributesSent_def normalizedLastValidHash_def
          split: prod.splits)
qed

text \<open>When \<open>Head\<close> fails instead, the same record comes back with a nil payload id.\<close>

lemma notifyForkchoiceUpdate_invalid_head_fails:
  assumes re: "reachesEngine c arg headBlk headPayload"
    and fcu: "ForkchoiceUpdated c (world s) (forkchoiceView c (world s) headPayload)
                (attributesSent c arg headBlk) = ((payloadID, lastValidHash, Some err), w1)"
    and inv: "errors_Is err ErrInvalidPayloadStatus"
    and soti: "SetOptimisticToInvalid c w1 (headRoot arg) (ParentRoot headBlk)
                 (normalizedLastValidHash bu lastValidHash) = (Inr invalidRoots, w2)"
    and rm: "removeInvalidBlockAndState c w2 invalidRoots = (None, w3)"
    and hd: "Head c w3 = (Inl e, w4)"
  shows "map_option fst (notifyForkchoiceUpdate bu c (Suc fuel) s arg) =
           Some (None, Some (InvalidBlock ErrInvalidPayload (headRoot arg) zeroHash invalidRoots))"
proof -
  from re obtain hb where hb: "headBlock arg = Some hb" "\<not> signed_IsNil hb" "Block hb = Some headBlk"
    "\<not> block_IsNil headBlk" "\<not> body_IsNil (Body headBlk)"
    "IsExecutionBlock c (Body headBlk) = Inr True" "Execution (Body headBlk) = Inr headPayload"
    by (rule reachesEngineD)
  note na = invalid_not_accepted [OF inv]
  from hb fcu inv na soti rm hd show ?thesis
    by (cases "lastValidHash = []")
       (simp_all add: Let_def forkchoiceView_def attributesSent_def normalizedLastValidHash_def)
qed

text \<open>When fork choice fails to invalidate, the call returns \<open>(nil, nil)\<close>.\<close>

lemma example_invalidation_fails:
  "notifyForkchoiceUpdate zeroPadBytesutil invalidationFails (Suc 0) exampleService exampleArg
   = Some ((None, None),
           exampleService\<lparr>world := 1,
             calls := [CallForkchoiceUpdated
                         \<lparr>HeadBlockHash = hashA, SafeBlockHash = replicate 32 0,
                          FinalizedBlockHash = replicate 32 0\<rparr> exampleAttributes,
                       CallSetOptimisticToInvalid rootA rootB (0xff # replicate 31 0)]\<rparr>)"
  by (simp add: example_defs Let_def)

theorem notifyForkchoiceUpdate_invalid_recovery_counterexample:
  "ForkchoiceUpdated invalidationFails (world exampleService)
     (forkchoiceView invalidationFails (world exampleService) \<lparr>BlockHash = hashA\<rparr>)
     (attributesSent invalidationFails exampleArg (exampleHeadBlk hashA rootB 10))
     = ((None, [], Some ErrInvalidPayloadStatus), 1)
   \<and> errors_Is ErrInvalidPayloadStatus ErrInvalidPayloadStatus
   \<and> map_option fst
        (notifyForkchoiceUpdate zeroPadBytesutil invalidationFails (Suc 0) exampleService exampleArg)
      = Some (None, None)"
proof -
  have "ForkchoiceUpdated invalidationFails (world exampleService)
     (forkchoiceView invalidationFails (world exampleService) \<lparr>BlockHash = hashA\<rparr>)
     (attributesSent invalidationFails exampleArg (exampleHeadBlk hashA rootB 10))
     = ((None, [], Some ErrInvalidPayloadStatus), 1)"
    by (simp add: forkchoiceView_def attributesSent_def exampleCollaborators_def invalidationFails_def
          exampleService_def exampleArg_def)
  moreover have "map_option fst
        (notifyForkchoiceUpdate zeroPadBytesutil invalidationFails (Suc 0) exampleService exampleArg)
      = Some (None, None)"
    by (subst example_invalidation_fails) simp
  ultimately show ?thesis by simp
qed

lemma example_recursive_call:
  "notifyForkchoiceUpdate zeroPadBytesutil exampleCollaborators (Suc 0)
     (exampleService\<lparr>world := 6,
        calls := calls exampleService @
          [CallForkchoiceUpdated
             (forkchoiceView exampleCollaborators (world exampleService) \<lparr>BlockHash = hashA\<rparr>)
             (attributesSent exampleCollaborators exampleArg (exampleHeadBlk hashA rootB 10)),
           CallSetOptimisticToInvalid (headRoot exampleArg) (ParentRoot (exampleHeadBlk hashA rootB 10))
             (normalizedLastValidHash zeroPadBytesutil [])]\<rparr>)
     \<lparr>headState = 0, headBlock = Some (exampleBlock hashB rootC 9), headRoot = rootB,
      attributes = Some (attributesSent exampleCollaborators exampleArg (exampleHeadBlk hashA rootB 10))\<rparr>
   = Some ((Some examplePayloadID, None), exampleRecovered\<lparr>world := 8\<rparr>)"
  by (simp add: example_defs exampleRecovered_def Let_def PayloadIDCache_Set_def copy8_def
        forkchoiceView_def attributesSent_def normalizedLastValidHash_def)

lemma example_recovery_steps:
  "SetOptimisticToInvalid exampleCollaborators 1 (headRoot exampleArg)
     (ParentRoot (exampleHeadBlk hashA rootB 10)) (normalizedLastValidHash zeroPadBytesutil [])
     = (Inr [rootA, rootD], 2)"
  "removeInvalidBlockAndState exampleCollaborators 2 [rootA, rootD] = (None, 6)"
  "Head exampleCollaborators 6 = (Inr rootB, 6)"
  "getBlock exampleCollaborators 6 rootB = Inr (exampleBlock hashB rootC 9)"
  "StateByRoot exampleCollaborators 6 rootB = (Inr 0, 6)"
  by (simp_all add: exampleCollaborators_def)


theorem notifyForkchoiceUpdate_invalid_recovery_witness:
  "reachesEngine exampleCollaborators exampleArg (exampleHeadBlk hashA rootB 10) \<lparr>BlockHash = hashA\<rparr>
   \<and> errors_Is ErrInvalidPayloadStatus ErrInvalidPayloadStatus
   \<and> SetOptimisticToInvalid exampleCollaborators 1 (headRoot exampleArg)
        (ParentRoot (exampleHeadBlk hashA rootB 10)) (normalizedLastValidHash zeroPadBytesutil [])
      = (Inr [rootA, rootD], 2)
   \<and> removeInvalidBlockAndState exampleCollaborators 2 [rootA, rootD] = (None, 6)
   \<and> Head exampleCollaborators 6 = (Inr rootB, 6)
   \<and> getBlock exampleCollaborators 6 rootB = Inr (exampleBlock hashB rootC 9)
   \<and> StateByRoot exampleCollaborators 6 rootB = (Inr 0, 6)
   \<and> notifyForkchoiceUpdate zeroPadBytesutil exampleCollaborators (Suc (Suc 0)) exampleService exampleArg
      = Some ((Some examplePayloadID, Some (InvalidBlock ErrInvalidPayload rootA zeroHash [rootA, rootD])),
              exampleRecovered)"
proof -
  have inv: "errors_Is ErrInvalidPayloadStatus ErrInvalidPayloadStatus"
    by simp
  have fin: "exampleRecovered\<lparr>world := 8\<rparr>
                \<lparr>world := snd (saveHead exampleCollaborators (world (exampleRecovered\<lparr>world := 8\<rparr>))
                                 rootB (exampleBlock hashB rootC 9) 0)\<rparr> = exampleRecovered"
    by (simp add: exampleRecovered_def exampleCollaborators_def)
  have hr: "headRoot exampleArg = rootA"
    by (simp add: exampleArg_def)
  from notifyForkchoiceUpdate_invalid_recovery
         [OF example_reaches example_engine_invalid inv example_recovery_steps example_recursive_call]
  have "notifyForkchoiceUpdate zeroPadBytesutil exampleCollaborators (Suc (Suc 0)) exampleService exampleArg
      = Some ((Some examplePayloadID, Some (InvalidBlock ErrInvalidPayload rootA zeroHash [rootA, rootD])),
              exampleRecovered)"
    unfolding fin hr .
  with example_reaches inv example_recovery_steps
  show ?thesis by blast
qed

text \<open>
  C4, as the code has it. \<open>pruneInvalidBlock\<close> returns a non-nil error for every
  input. When \<open>SetOptimisticToInvalid\<close> and the removals succeed, the error is the
  invalidity record with the given last valid hash and the roots fork choice
  invalidated (its root field is left zero). When \<open>SetOptimisticToInvalid\<close> fails, or
  a removal fails, the error is that failure, unchanged.
\<close>

theorem pruneInvalidBlock_error:
  "fst (pruneInvalidBlock c s root parentRoot lvh) \<noteq> None
   \<and> (\<forall>invalidRoots w1 w2.
         SetOptimisticToInvalid c (world s) root parentRoot lvh = (Inr invalidRoots, w1)
         \<and> removeInvalidBlockAndState c w1 invalidRoots = (None, w2)
         \<longrightarrow> fst (pruneInvalidBlock c s root parentRoot lvh)
               = Some (InvalidBlock ErrInvalidPayload zeroHash lvh invalidRoots))
   \<and> (\<forall>err w1.
         SetOptimisticToInvalid c (world s) root parentRoot lvh = (Inl err, w1)
         \<longrightarrow> fst (pruneInvalidBlock c s root parentRoot lvh) = Some err)
   \<and> (\<forall>invalidRoots w1 err w2.
         SetOptimisticToInvalid c (world s) root parentRoot lvh = (Inr invalidRoots, w1)
         \<and> removeInvalidBlockAndState c w1 invalidRoots = (Some err, w2)
         \<longrightarrow> fst (pruneInvalidBlock c s root parentRoot lvh) = Some err)"
  by (auto simp: pruneInvalidBlock_def Let_def split: prod.splits sum.splits option.splits)

theorem pruneInvalidBlock_error_witness:
  "SetOptimisticToInvalid exampleCollaborators (world exampleService) rootA rootB hashB
     = (Inr [rootA, rootD], 1)
   \<and> removeInvalidBlockAndState exampleCollaborators 1 [rootA, rootD] = (None, 5)
   \<and> fst (pruneInvalidBlock exampleCollaborators exampleService rootA rootB hashB)
     = Some (InvalidBlock ErrInvalidPayload zeroHash hashB [rootA, rootD])"
proof -
  have a: "SetOptimisticToInvalid exampleCollaborators (world exampleService) rootA rootB hashB
     = (Inr [rootA, rootD], 1)"
    by (simp add: exampleCollaborators_def exampleService_def)
  have b: "removeInvalidBlockAndState exampleCollaborators 1 [rootA, rootD] = (None, 5)"
    by (simp add: exampleCollaborators_def)
  from pruneInvalidBlock_error [of exampleCollaborators exampleService rootA rootB hashB] a b
  show ?thesis by blast
qed

theorem pruneInvalidBlock_error_counterexample:
  "fst (pruneInvalidBlock invalidationFails exampleService rootA rootB hashB) = Some (External 1)
   \<and> \<not> carriesInvalidityRecord (External 1)"
  by (simp add: pruneInvalidBlock_def invalidationFails_def exampleCollaborators_def exampleService_def)

text \<open>
  C5. For a non-nil signed block and a pre-state version below Bellatrix,
  \<open>notifyNewPayload\<close> returns \<open>(true, nil)\<close> and the service is as before the call,
  whatever the collaborators are: the list of calls made has no new entry, so the
  engine was not invoked.
\<close>

theorem notifyNewPayload_pre_bellatrix:
  "preStateVersion < Bellatrix c
   \<Longrightarrow> notifyNewPayload bu c s preStateVersion preStateHeader (Some blk) = Returned ((True, None), s)"
  by (simp add: notifyNewPayload_def)

theorem notifyNewPayload_pre_bellatrix_witness:
  "(1 :: int) < Bellatrix exampleCollaborators
   \<and> notifyNewPayload zeroPadBytesutil exampleCollaborators exampleService 1 \<lparr>BlockHash = hashB\<rparr>
        (Some (exampleBlock hashA rootB 10))
      = Returned ((True, None), exampleService)"
proof -
  have v: "(1 :: int) < Bellatrix exampleCollaborators"
    by (simp add: exampleCollaborators_def)
  from notifyNewPayload_pre_bellatrix [OF v] v show ?thesis by blast
qed

text \<open>For contrast, the same block with a Deneb pre-state is sent to the engine.\<close>
lemma notifyNewPayload_example_engine:
  "notifyNewPayload zeroPadBytesutil exampleCollaborators exampleService 4 \<lparr>BlockHash = hashB\<rparr>
        (Some (exampleBlock hashA rootB 10))
   = Returned ((True, None),
       exampleService\<lparr>world := 1,
         calls := [CallNewPayload \<lparr>BlockHash = hashA\<rparr> [] (Some rootB) None]\<rparr>)"
  by (simp add: notifyNewPayload_def kzgCommitmentsToVersionedHashes_def example_defs Let_def)

text \<open>
  C10. For a nil signed block, \<open>notifyNewPayload\<close> returns \<open>false\<close> and the error
  "signed beacon block can't be nil", whatever the pre-state version is, also one
  below Bellatrix: the nil test comes first. The service is unchanged.
\<close>

theorem notifyNewPayload_nil_block:
  "notifyNewPayload bu c s preStateVersion preStateHeader None
   = Returned ((False, Some (ErrorNew ''signed beacon block can't be nil'')), s)"
  by (simp add: notifyNewPayload_def)

end
